theory Spec2Isabelle
  imports Complex_Main "HOL-Library.Sublist"
begin

section \<open>JavaScript values used by the two servers\<close>

subsection \<open>Objects used as dictionaries\<close>

text \<open>
  Both servers keep their sessions in an object created by the literal \<^verbatim>\<open>{}\<close>:
  \<^verbatim>\<open>const transports: Record<string, StreamableHTTPServerTransport> = {};\<close>
  (mcpServer.ts, line 88) and \<^verbatim>\<open>transports\<close>, \<^verbatim>\<open>servers\<close> (sseServer.ts, lines 114-115).
  The own properties of such an object are a finite map from strings. A read
  \<^verbatim>\<open>obj[k]\<close> returns the own property \<open>k\<close> when there is one; otherwise it follows
  the prototype chain, and the prototype of an object literal is \<^verbatim>\<open>Object.prototype\<close>.
  The names below are the properties of \<^verbatim>\<open>Object.prototype\<close> in Node.js; each holds a
  function, or for \<^verbatim>\<open>__proto__\<close> the prototype object itself, so each is truthy and
  none has a property \<^verbatim>\<open>handleRequest\<close>, \<^verbatim>\<open>handlePostMessage\<close> or \<^verbatim>\<open>close\<close>.
\<close>

definition object_prototype_names :: "string list" where
  "object_prototype_names =
     [''constructor'', ''hasOwnProperty'', ''isPrototypeOf'', ''propertyIsEnumerable'',
      ''toLocaleString'', ''toString'', ''valueOf'', ''__proto__'',
      ''__defineGetter__'', ''__defineSetter__'', ''__lookupGetter__'', ''__lookupSetter__'']"

text \<open>
  What a read finds: an own property with its value, or a member of
  \<^verbatim>\<open>Object.prototype\<close> (named); \<open>None\<close> is JavaScript's \<^verbatim>\<open>undefined\<close>.
\<close>

datatype 'a property = Own 'a | Inherited string

definition js_get :: "(string \<rightharpoonup> 'a) \<Rightarrow> string \<Rightarrow> 'a property option" where
  "js_get obj k =
     (case obj k of
        Some v \<Rightarrow> Some (Own v)
      | None \<Rightarrow> if k \<in> set object_prototype_names then Some (Inherited k) else None)"

text \<open>
  \<^verbatim>\<open>obj[k] = v\<close> and \<^verbatim>\<open>delete obj[k]\<close>. The servers store under keys that are
  session ids made by \<^verbatim>\<open>randomUUID()\<close>; for such a key the assignment creates or
  overwrites the own property. \<^verbatim>\<open>delete\<close> removes the own property only, and does
  nothing when there is none.
\<close>

definition js_set :: "(string \<rightharpoonup> 'a) \<Rightarrow> string \<Rightarrow> 'a \<Rightarrow> (string \<rightharpoonup> 'a)" where
  "js_set obj k v = obj(k \<mapsto> v)"

definition js_delete :: "(string \<rightharpoonup> 'a) \<Rightarrow> string \<Rightarrow> (string \<rightharpoonup> 'a)" where
  "js_delete obj k = obj(k := None)"

text \<open>
  A value of type \<^verbatim>\<open>string | undefined\<close> in a condition: \<^verbatim>\<open>undefined\<close> and the empty
  string are falsy, every other string is truthy.
\<close>

fun truthy :: "string option \<Rightarrow> bool" where
  "truthy None = False"
| "truthy (Some s) = (s \<noteq> [])"

text \<open>
  \<^verbatim>\<open>sessionId && obj[sessionId]\<close>, read for its truthiness and, when truthy, for the
  value then fetched by \<^verbatim>\<open>obj[sessionId]\<close>.
\<close>

fun lookup_session :: "(string \<rightharpoonup> 'a) \<Rightarrow> string option \<Rightarrow> 'a property option" where
  "lookup_session obj None = None"
| "lookup_session obj (Some s) = (if s = [] then None else js_get obj s)"

subsection \<open>Session ids\<close>

text \<open>
  \<^verbatim>\<open>randomUUID()\<close> (mcpServer.ts, line 98) returns a version 4 UUID in its
  canonical text form: 36 characters, hyphens at positions 8, 13, 18 and 23,
  lower-case hexadecimal digits elsewhere. The transport of the push-stream
  binding makes its \<^verbatim>\<open>sessionId\<close> (sseServer.ts, line 119) with the same function.
\<close>

definition hex_digit :: "char \<Rightarrow> bool" where
  "hex_digit c = (c \<in> set ''0123456789abcdef'')"

definition is_uuid :: "string \<Rightarrow> bool" where
  "is_uuid s =
     (length s = 36 \<and>
      list_all (\<lambda>i. if i = 8 \<or> i = 13 \<or> i = 18 \<or> i = 23
                     then s ! i = CHR ''-'' else hex_digit (s ! i)) [0..<36])"

subsection \<open>Exceptions\<close>

text \<open>
  \<open>TypeError\<close> is raised by calling a method that the receiver does not have,
  \<open>RangeError\<close> by a concatenation whose result would be longer than a string
  may be. \<open>Send_Rejected i\<close> is the rejection of the promise returned by
  \<^verbatim>\<open>extra.sendNotification\<close> for the notification with loop counter \<open>i\<close>.
\<close>

datatype exception = TypeError | RangeError | Send_Rejected int

subsection \<open>JSON values and HTTP responses\<close>

datatype json =
    JNull
  | JNumber int
  | JString string
  | JArray "json list"
  | JObject "(string \<times> json) list"

datatype payload = Json_Body json | Text_Body string

record http_response =
  status :: nat
  payload :: payload

text \<open>The 2xx class of HTTP status codes.\<close>

definition http_success :: "nat \<Rightarrow> bool" where
  "http_success code = (200 \<le> code \<and> code < 300)"

section \<open>The request/response binding (mcpServer.ts)\<close>

text \<open>
  Transports are objects; the model names each by a number (its identity).
  A request is what the handlers read of it: the header \<^verbatim>\<open>mcp-session-id\<close>
  (\<open>None\<close> when the request has none) and the parsed body.
\<close>

type_synonym transport = nat

record 'b request =
  session_header :: "string option"
  body :: 'b

text \<open>
  What a handler does, in order. \<open>New_Transport t\<close> is the construction of the
  transport \<open>t\<close> with its two callbacks (lines 97-108), \<open>Connect t\<close> the creation of
  a server and its connection to \<open>t\<close> (lines 110-111). \<open>Handle_Request t b\<close> is the call
  \<^verbatim>\<open>transport.handleRequest(req, res, b)\<close> on transport \<open>t\<close> (\<open>None\<close>: the call with two
  arguments); what the transport does with the request is the SDK's.
  \<open>Session_Initialized sid t\<close> is the SDK running the callback
  \<^verbatim>\<open>onsessioninitialized(sid)\<close> of transport \<open>t\<close> while it handles the initialization
  request. \<open>Handle_Post_Message t b\<close> is the call
  \<^verbatim>\<open>transport.handlePostMessage(req, res, b)\<close> of the other server. \<open>Reply r\<close> sends
  the response \<open>r\<close>. \<open>Throw e\<close> ends the handler with the exception \<open>e\<close>.
\<close>

datatype 'b action =
    New_Transport transport
  | Connect transport
  | Handle_Request transport "'b option"
  | Handle_Post_Message transport 'b
  | Session_Initialized string transport
  | Reply http_response
  | Throw exception

text \<open>The body of the rejection at mcpServer.ts, lines 113-120.\<close>

definition no_valid_session :: json where
  "no_valid_session =
     JObject [(''jsonrpc'', JString ''2.0''),
              (''error'', JObject [(''code'', JNumber (- 32000)),
                                   (''message'', JString ''Bad Request: No valid session ID provided'')]),
              (''id'', JNull)]"

text \<open>
  \<^verbatim>\<open>app.post("/mcp", ...)\<close>, lines 90-125. \<open>isInitializeRequest\<close> is the SDK's
  predicate on bodies. \<open>fresh\<close> is the transport that \<^verbatim>\<open>new\<close> would create, and
  \<open>handshake\<close> is what the SDK does with the callback while the new transport
  handles the request: \<open>Some sid\<close> when it runs \<^verbatim>\<open>onsessioninitialized(sid)\<close>,
  \<open>None\<close> when it never does.
\<close>

definition post_mcp ::
  "('b \<Rightarrow> bool) \<Rightarrow> (string \<rightharpoonup> transport) \<Rightarrow> 'b request \<Rightarrow> transport \<Rightarrow> string option
     \<Rightarrow> 'b action list" where
  "post_mcp isInitializeRequest transports req fresh handshake =
     (let sessionId = session_header req in
      case lookup_session transports sessionId of
        Some (Own transport) \<Rightarrow> [Handle_Request transport (Some (body req))]
      | Some (Inherited n) \<Rightarrow> [Throw TypeError]
      | None \<Rightarrow>
          if \<not> truthy sessionId \<and> isInitializeRequest (body req) then
            [New_Transport fresh, Connect fresh, Handle_Request fresh (Some (body req))]
              @ (case handshake of None \<Rightarrow> [] | Some sid \<Rightarrow> [Session_Initialized sid fresh])
          else
            [Reply \<lparr>status = 400, payload = Json_Body no_valid_session\<rparr>])"

text \<open>
  The two callbacks installed on a new transport (lines 99-101 and 104-108).
  \<open>sessionId_of\<close> is the transport's own field \<^verbatim>\<open>transport.sessionId\<close>.
\<close>

definition onsessioninitialized ::
  "(string \<rightharpoonup> transport) \<Rightarrow> string \<Rightarrow> transport \<Rightarrow> (string \<rightharpoonup> transport)" where
  "onsessioninitialized transports sessionId transport = js_set transports sessionId transport"

definition onclose :: "(string \<rightharpoonup> transport) \<Rightarrow> string option \<Rightarrow> (string \<rightharpoonup> transport)" where
  "onclose transports sessionId_of =
     (case sessionId_of of
        None \<Rightarrow> transports
      | Some s \<Rightarrow> if s = [] then transports else js_delete transports s)"

text \<open>The Session Table after an action, and after a list of them.\<close>

fun effect :: "(string \<rightharpoonup> transport) \<Rightarrow> 'b action \<Rightarrow> (string \<rightharpoonup> transport)" where
  "effect transports (Session_Initialized sid t) = onsessioninitialized transports sid t"
| "effect transports _ = transports"

definition table_after :: "(string \<rightharpoonup> transport) \<Rightarrow> 'b action list \<Rightarrow> (string \<rightharpoonup> transport)" where
  "table_after transports acts = foldl effect transports acts"

text \<open>\<^verbatim>\<open>handleSessionRequest\<close>, lines 127-139, serving GET and DELETE.\<close>

definition handleSessionRequest :: "(string \<rightharpoonup> transport) \<Rightarrow> 'b request \<Rightarrow> 'b action list" where
  "handleSessionRequest transports req =
     (case lookup_session transports (session_header req) of
        None \<Rightarrow> [Reply \<lparr>status = 400, payload = Text_Body ''Invalid or missing session ID''\<rparr>]
      | Some (Own transport) \<Rightarrow> [Handle_Request transport None]
      | Some (Inherited n) \<Rightarrow> [Throw TypeError])"

section \<open>The push-stream binding (sseServer.ts)\<close>

text \<open>
  The server keeps two objects, \<^verbatim>\<open>transports\<close> and \<^verbatim>\<open>servers\<close> (lines 114-115),
  both keyed by session id. The calls of \<^verbatim>\<open>logger\<close> write a line to the console
  and touch nothing else; they are left out of the handlers below.
\<close>

type_synonym server = nat

record sse_tables =
  sse_transports :: "string \<rightharpoonup> transport"
  sse_servers :: "string \<rightharpoonup> server"

text \<open>
  \<^verbatim>\<open>app.get("/sse", ...)\<close>, lines 117-144: the new transport, the session id the
  transport made for itself, and the server made by \<^verbatim>\<open>createMcpServer\<close> are
  registered at once.
\<close>

definition get_sse :: "sse_tables \<Rightarrow> transport \<Rightarrow> string \<Rightarrow> server \<Rightarrow> sse_tables" where
  "get_sse st transport sessionId server =
     st\<lparr>sse_transports := js_set (sse_transports st) sessionId transport,
        sse_servers := js_set (sse_servers st) sessionId server\<rparr>"

text \<open>
  The handler of the response's \<^verbatim>\<open>close\<close> event, lines 125-135, for the session id
  captured by the closure. It returns the exception it ends with, if any, and
  the tables it leaves. Closing the transport and the server (lines 127 and
  132) is the SDK's and changes neither table.
\<close>

definition on_close :: "sse_tables \<Rightarrow> string \<Rightarrow> exception option \<times> sse_tables" where
  "on_close st sessionId =
     (let st1 = st\<lparr>sse_transports := js_delete (sse_transports st) sessionId\<rparr> in
      case js_get (sse_servers st1) sessionId of
        None \<Rightarrow> (None, st1)
      | Some (Own server) \<Rightarrow>
          (None, st1\<lparr>sse_servers := js_delete (sse_servers st1) sessionId\<rparr>)
      | Some (Inherited n) \<Rightarrow> (Some TypeError, st1))"

text \<open>
  A request to a message endpoint: the query parameter \<^verbatim>\<open>sessionId\<close> and the body.
\<close>

record 'b message_request =
  sessionId_param :: "string option"
  message :: 'b

text \<open>\<^verbatim>\<open>app.post("/sse", ...)\<close>, lines 147-161.\<close>

definition post_sse :: "(string \<rightharpoonup> transport) \<Rightarrow> 'b message_request \<Rightarrow> 'b action list" where
  "post_sse transports req =
     (case lookup_session transports (sessionId_param req) of
        None \<Rightarrow> [Reply \<lparr>status = 400, payload = Text_Body ''Invalid or missing sessionId''\<rparr>]
      | Some (Own transport) \<Rightarrow> [Handle_Post_Message transport (message req)]
      | Some (Inherited n) \<Rightarrow> [Throw TypeError])"

text \<open>\<^verbatim>\<open>app.post("/messages", ...)\<close>, lines 164-178.\<close>

definition post_messages :: "(string \<rightharpoonup> transport) \<Rightarrow> 'b message_request \<Rightarrow> 'b action list" where
  "post_messages transports req =
     (case lookup_session transports (sessionId_param req) of
        None \<Rightarrow> [Reply \<lparr>status = 400, payload = Text_Body ''Invalid or missing sessionId''\<rparr>]
      | Some (Own transport) \<Rightarrow> [Handle_Post_Message transport (message req)]
      | Some (Inherited n) \<Rightarrow> [Throw TypeError])"

section \<open>The tools\<close>

subsection \<open>Numbers and their text\<close>

text \<open>
  The argument \<^verbatim>\<open>count\<close> is any JavaScript number (\<^verbatim>\<open>z.number()\<close>): a finite
  value, an infinity or \<^verbatim>\<open>NaN\<close>. \<open>js_le i count\<close> is the loop test
  \<^verbatim>\<open>i <= count\<close> for a counter that holds the integer \<open>i\<close>: every comparison with
  \<^verbatim>\<open>NaN\<close> is false.
\<close>

datatype jsnum = Num real | Infinity | Neg_Infinity | NaN

fun js_le :: "int \<Rightarrow> jsnum \<Rightarrow> bool" where
  "js_le i (Num x) = (of_int i \<le> x)"
| "js_le i Infinity = True"
| "js_le i Neg_Infinity = False"
| "js_le i NaN = False"

text \<open>
  The loop counter \<^verbatim>\<open>i\<close> is a double that starts at 1; \<open>js_inc\<close> is \<^verbatim>\<open>i++\<close> on the
  values it takes. Below \<open>2 ^ 53\<close> the sum \<open>i + 1\<close> is a double. At \<open>2 ^ 53\<close> it is
  not: it lies half way between the doubles \<open>2 ^ 53\<close> and \<open>2 ^ 53 + 2\<close> and is rounded
  to the first, whose mantissa is even, so the counter stops advancing there.
\<close>

definition js_inc :: "int \<Rightarrow> int" where
  "js_inc i = (if i < 2 ^ 53 then i + 1 else i)"

text \<open>
  The text of an integer in a template literal (\<^verbatim>\<open>`${i}`\<close>): its decimal digits,
  for an integer below \<open>10^21\<close> in absolute value. The counter and its double
  \<^verbatim>\<open>i * 2\<close>, at most \<open>2 ^ 54\<close> and computed exactly, are such integers.
\<close>

fun decimal :: "nat \<Rightarrow> string" where
  "decimal n =
     (if n < 10 then [''0123456789'' ! n]
      else decimal (n div 10) @ [''0123456789'' ! (n mod 10)])"

definition js_string :: "int \<Rightarrow> string" where
  "js_string i = (if i < 0 then CHR ''-'' # decimal (nat (- i)) else decimal (nat i))"

subsection \<open>Messages\<close>

text \<open>
  A text item \<^verbatim>\<open>{type: "text", text: s}\<close>, a tool's result
  \<^verbatim>\<open>{content: [{type: "text", text: s}]}\<close>, and the notifications of the two servers
  (mcpServer.ts, lines 42-48; sseServer.ts, lines 64-70).
\<close>

definition text_item :: "string \<Rightarrow> json" where
  "text_item s = JObject [(''type'', JString ''text''), (''text'', JString s)]"

definition tool_result :: "string \<Rightarrow> json" where
  "tool_result s = JObject [(''content'', JArray [text_item s])]"

definition mcp_notification :: "string \<Rightarrow> json" where
  "mcp_notification s =
     JObject [(''method'', JString ''notifications/message''),
              (''params'', JObject [(''level'', JString ''info''),
                                    (''content'', JArray [text_item s])])]"

definition sse_notification :: "string \<Rightarrow> json" where
  "sse_notification s =
     JObject [(''method'', JString ''notifications/message''),
              (''params'', JObject [(''level'', JString ''info''),
                                    (''data'', text_item s)])]"

subsection \<open>stream_numbers\<close>

text \<open>
  What one invocation does: the notifications it passes to
  \<^verbatim>\<open>extra.sendNotification\<close>, in order; the loop counters whose rejection it
  reports through \<^verbatim>\<open>logger\<close>; and how it ends, with an exception or with the
  result it returns.

  \<open>delivered i\<close> tells whether the promise of the notification sent with loop
  counter \<open>i\<close> is fulfilled (\<open>True\<close>) or rejected. The pauses between two
  emissions are not modelled.
\<close>

record invocation =
  issued :: "json list"
  reported :: "int list"
  returned :: "exception + json"

text \<open>
  mcpServer.ts, lines 39-56. Each promise is awaited; a rejected one makes the
  \<^verbatim>\<open>await\<close> throw, and nothing in the handler catches it. A loop that never ends
  is the value \<open>None\<close>.
\<close>

partial_function (option) mcp_loop ::
  "jsnum \<Rightarrow> (int \<Rightarrow> bool) \<Rightarrow> int \<Rightarrow> json list \<Rightarrow> invocation option" where
  "mcp_loop count delivered i sent =
     (if js_le i count then
        (if delivered i then
           mcp_loop count delivered (js_inc i) (sent @ [mcp_notification (js_string i @ [CHR 0x0A])])
         else
           Some \<lparr>issued = sent @ [mcp_notification (js_string i @ [CHR 0x0A])], reported = [],
                 returned = Inl (Send_Rejected i)\<rparr>)
      else Some \<lparr>issued = sent, reported = [], returned = Inr (tool_result ''Done!'')\<rparr>)"

definition mcp_stream_numbers :: "jsnum \<Rightarrow> (int \<Rightarrow> bool) \<Rightarrow> invocation option" where
  "mcp_stream_numbers count delivered = mcp_loop count delivered 1 []"

text \<open>
  sseServer.ts, lines 44-86. The promise is not awaited; its rejection runs the
  \<^verbatim>\<open>catch\<close> handler, which reports it. The reports are listed in the order of the
  emissions.

  A string has a largest length, \<open>max_length\<close>: at most \<open>2 ^ 53 - 1\<close> by the language,
  \<open>2 ^ 29 - 24\<close> in Node.js on a 64-bit machine. The concatenation
  \<^verbatim>\<open>accumulator += ...\<close> (line 80) throws a \<^verbatim>\<open>RangeError\<close> when its result would be
  longer; nothing in the handler catches it, and the notification of that round
  has been passed on before (lines 63-70). As the accumulator grows in every
  round, the loop ends on every count.
\<close>

function sse_loop ::
  "nat \<Rightarrow> jsnum \<Rightarrow> (int \<Rightarrow> bool) \<Rightarrow> int \<Rightarrow> json list \<Rightarrow> int list \<Rightarrow> string \<Rightarrow> invocation" where
  "sse_loop max_length count delivered i sent errors accumulator =
     (if js_le i count then
        (if max_length < length (accumulator @ (js_string (i * 2) @ '' '')) then
           \<lparr>issued = sent @ [sse_notification (js_string (i * 2) @ '' '')],
            reported = (if delivered i then errors else errors @ [i]),
            returned = Inl RangeError\<rparr>
         else
           sse_loop max_length count delivered (js_inc i)
             (sent @ [sse_notification (js_string (i * 2) @ '' '')])
             (if delivered i then errors else errors @ [i])
             (accumulator @ (js_string (i * 2) @ '' '')))
      else \<lparr>issued = sent, reported = errors, returned = Inr (tool_result accumulator)\<rparr>)"
  by pat_completeness auto
termination
  by (relation "measure (\<lambda>(max_length, count, delivered, i, sent, errors, accumulator).
                   max_length - length accumulator)") auto

declare sse_loop.simps [simp del]

definition sse_stream_numbers :: "nat \<Rightarrow> jsnum \<Rightarrow> (int \<Rightarrow> bool) \<Rightarrow> invocation" where
  "sse_stream_numbers max_length count delivered = sse_loop max_length count delivered 1 [] [] []"

subsection \<open>get_secret_word\<close>

text \<open>
  \<^verbatim>\<open>getRandomWord\<close> (mcpServer.ts, lines 12-13; sseServer.ts, lines 11-12), as a
  function of the value of \<^verbatim>\<open>Math.random()\<close>, a double from 0 up to 1. Every such
  double is \<open>m / 2 ^ k\<close> for a mantissa \<open>m < 2 ^ 53\<close> and an exponent \<open>k \<le> 1074\<close>, and
  these two numbers stand for it.

  The multiplication rounds the product to the nearest double, ties to even.
  \<open>times3 m k\<close> is the double that \<^verbatim>\<open>Math.random() * 3\<close> computes: the exact product
  \<open>3 * m / 2 ^ k\<close> when \<open>3 * m\<close> fits in 53 bits, and otherwise \<open>3 * m\<close> rounded to a
  multiple of 2 or of 4, which leaves 53 bits. \<open>round_half_even p d\<close> is \<open>p / d\<close>
  rounded to the nearest integer, a tie to the even one.

  \<open>word_at x\<close> is the array read \<^verbatim>\<open>[...][Math.floor(x)]\<close>: an index outside the
  array reads \<^verbatim>\<open>undefined\<close>, the value \<open>None\<close>.
\<close>

definition round_half_even :: "nat \<Rightarrow> nat \<Rightarrow> nat" where
  "round_half_even p d =
     (let q = p div d; r = p mod d in
      if 2 * r < d then q else if d < 2 * r then q + 1 else if even q then q else q + 1)"

definition times3 :: "nat \<Rightarrow> nat \<Rightarrow> real" where
  "times3 m k =
     (let p = 3 * m in
      if p < 2 ^ 53 then real p / 2 ^ k
      else if p < 2 ^ 54 then real (2 * round_half_even p 2) / 2 ^ k
      else real (4 * round_half_even p 4) / 2 ^ k)"

definition vocabulary :: "string list" where
  "vocabulary = [''apple'', ''banana'', ''cherry'']"

definition word_at :: "real \<Rightarrow> string option" where
  "word_at x =
     (let i = \<lfloor>x\<rfloor> in
      if 0 \<le> i \<and> i < int (length vocabulary) then Some (vocabulary ! nat i) else None)"

definition getRandomWord :: "nat \<Rightarrow> nat \<Rightarrow> string option" where
  "getRandomWord m k = word_at (times3 m k)"

text \<open>
  The handler of \<^verbatim>\<open>get_secret_word\<close>; a property whose value is \<^verbatim>\<open>undefined\<close> is
  absent from the serialised result.
\<close>

definition get_secret_word :: "nat \<Rightarrow> nat \<Rightarrow> json" where
  "get_secret_word m k =
     (case getRandomWord m k of
        Some word \<Rightarrow> tool_result word
      | None \<Rightarrow> JObject [(''content'', JArray [JObject [(''type'', JString ''text'')]])])"

section \<open>Sample inputs\<close>

text \<open>
  Inputs for the examples. \<open>is_initialize_method\<close> stands in the examples for the
  SDK's \<^verbatim>\<open>isInitializeRequest\<close>: it is true of the JSON-RPC requests whose method
  is \<^verbatim>\<open>initialize\<close>. \<open>sample_uuid\<close> is a value that \<^verbatim>\<open>randomUUID()\<close> can return.
\<close>

definition is_initialize_method :: "json \<Rightarrow> bool" where
  "is_initialize_method b =
     (case b of
        JObject members \<Rightarrow> map_of members ''method'' = Some (JString ''initialize'')
      | _ \<Rightarrow> False)"

definition initialize_body :: json where
  "initialize_body =
     JObject [(''jsonrpc'', JString ''2.0''), (''id'', JNumber 0), (''method'', JString ''initialize''),
              (''params'', JObject [(''protocolVersion'', JString ''2025-03-26''),
                                    (''capabilities'', JObject []),
                                    (''clientInfo'', JObject [(''name'', JString ''client''),
                                                              (''version'', JString ''1.0.0'')])])]"

definition list_tools_body :: json where
  "list_tools_body =
     JObject [(''jsonrpc'', JString ''2.0''), (''id'', JNumber 1), (''method'', JString ''tools/list'')]"

definition sample_uuid :: string where
  "sample_uuid = ''123e4567-e89b-42d3-a456-426614174000''"

section \<open>Session ids and inherited names\<close>

lemma is_uuid_not_inherited: "is_uuid s \<Longrightarrow> s \<notin> set object_prototype_names"
  by (auto simp: is_uuid_def object_prototype_names_def)

lemma is_uuid_nonempty: "is_uuid s \<Longrightarrow> s \<noteq> []"
  by (auto simp: is_uuid_def)

lemma is_uuid_sample: "is_uuid sample_uuid"
  by (simp add: sample_uuid_def is_uuid_def hex_digit_def upt_rec)

lemma js_get_deleted: "k \<notin> set object_prototype_names \<Longrightarrow> js_get (js_delete obj k) k = None"
  by (simp add: js_get_def js_delete_def)

lemma js_delete_absent: "obj k = None \<Longrightarrow> js_delete obj k = obj"
  by (auto simp: js_delete_def)

lemma lookup_session_deleted:
  "is_uuid sid \<Longrightarrow> lookup_session (js_delete obj sid) (Some sid) = None"
  by (simp add: js_get_deleted is_uuid_not_inherited)

section \<open>Classification of requests by the request/response binding\<close>

lemma post_mcp_known:
  assumes "s \<noteq> []" and "transports s = Some t"
  shows "post_mcp isInitializeRequest transports \<lparr>session_header = Some s, body = b\<rparr> fresh handshake
           = [Handle_Request t (Some b)]"
  using assms by (simp add: post_mcp_def js_get_def)

lemma post_mcp_new:
  assumes "\<not> truthy (session_header req)" and "isInitializeRequest (body req)"
  shows "post_mcp isInitializeRequest transports req fresh handshake =
           [New_Transport fresh, Connect fresh, Handle_Request fresh (Some (body req))]
             @ (case handshake of None \<Rightarrow> [] | Some sid \<Rightarrow> [Session_Initialized sid fresh])"
proof -
  have "lookup_session transports (session_header req) = None"
    using assms(1) by (cases "session_header req") auto
  then show ?thesis using assms by (simp add: post_mcp_def)
qed

lemma post_mcp_rejected:
  assumes "lookup_session transports (session_header req) = None"
    and "truthy (session_header req) \<or> \<not> isInitializeRequest (body req)"
  shows "post_mcp isInitializeRequest transports req fresh handshake =
           [Reply \<lparr>status = 400, payload = Json_Body no_valid_session\<rparr>]"
  using assms by (auto simp: post_mcp_def)

lemma table_after_Nil: "table_after transports [] = transports"
  by (simp add: table_after_def)

lemma table_after_Cons: "table_after transports (a # acts) = table_after (effect transports a) acts"
  by (simp add: table_after_def)

text \<open>
  Claim C1, as amended. A POST to \<^verbatim>\<open>/mcp\<close> that carries no session id header and
  whose body is not an initialization request is answered with HTTP status 400
  and the JSON-RPC error envelope with code -32000, message
  "Bad Request: No valid session ID provided" and id null; the handler creates no
  transport and leaves the Session Table as it was.
\<close>

theorem post_mcp_no_session_rejected:
  assumes "session_header req = None" and "\<not> isInitializeRequest (body req)"
  shows "post_mcp isInitializeRequest transports req fresh handshake =
           [Reply \<lparr>status = 400, payload = Json_Body no_valid_session\<rparr>]
         \<and> table_after transports (post_mcp isInitializeRequest transports req fresh handshake)
             = transports"
  using assms by (simp add: post_mcp_def table_after_def)

theorem post_mcp_no_session_rejected_witness:
  "session_header \<lparr>session_header = None, body = list_tools_body\<rparr> = None
   \<and> \<not> is_initialize_method (body \<lparr>session_header = None, body = list_tools_body\<rparr>)
   \<and> post_mcp is_initialize_method Map.empty \<lparr>session_header = None, body = list_tools_body\<rparr> 0 None
       = [Reply \<lparr>status = 400, payload = Json_Body no_valid_session\<rparr>]"
  using post_mcp_no_session_rejected
          [of "\<lparr>session_header = None, body = list_tools_body\<rparr>" is_initialize_method Map.empty 0 None]
  by (simp add: is_initialize_method_def list_tools_body_def)

text \<open>
  The status of that answer is 400, which is not a success status: the claim as
  stated, with an HTTP-level success status, fails on the request below.
\<close>

theorem post_mcp_rejection_status_not_success:
  "post_mcp is_initialize_method Map.empty \<lparr>session_header = None, body = list_tools_body\<rparr> 0 None
     = [Reply \<lparr>status = 400, payload = Json_Body no_valid_session\<rparr>]
   \<and> \<not> http_success (status \<lparr>status = 400, payload = Json_Body no_valid_session\<rparr>)"
  by (simp add: post_mcp_def is_initialize_method_def list_tools_body_def http_success_def)

text \<open>
  Claim C3. Every POST to \<^verbatim>\<open>/mcp\<close> is classified in a fixed order: a session id
  present in the Session Table routes the request to that session's transport,
  whatever the body; otherwise no session id and an initialization body create a
  new session; every other request is rejected with the JSON-RPC error and creates
  no state.

  The handler reads the table with \<^verbatim>\<open>transports[sessionId]\<close>, which also finds the
  members of \<^verbatim>\<open>Object.prototype\<close>. For the session id \<^verbatim>\<open>constructor\<close> and an empty
  table the first test succeeds, \<^verbatim>\<open>transport\<close> is the function \<^verbatim>\<open>Object\<close>, and the call
  of its missing method \<^verbatim>\<open>handleRequest\<close> at line 124 raises a \<^verbatim>\<open>TypeError\<close>: the
  request is neither routed to a session nor rejected with the error envelope.
\<close>

theorem post_mcp_inherited_name_not_rejected:
  "post_mcp isInitializeRequest Map.empty \<lparr>session_header = Some ''constructor'', body = b\<rparr>
       fresh handshake
     = [Throw TypeError]"
  by (simp add: post_mcp_def js_get_def object_prototype_names_def)

text \<open>
  For every other session id the handler classifies as the claim says.
\<close>

lemma post_mcp_classification:
  assumes "\<forall>s. session_header req = Some s \<longrightarrow> s \<notin> set object_prototype_names"
  shows "post_mcp isInitializeRequest transports req fresh handshake =
     (case session_header req of
        None \<Rightarrow>
          if isInitializeRequest (body req)
          then [New_Transport fresh, Connect fresh, Handle_Request fresh (Some (body req))]
                 @ (case handshake of None \<Rightarrow> [] | Some sid \<Rightarrow> [Session_Initialized sid fresh])
          else [Reply \<lparr>status = 400, payload = Json_Body no_valid_session\<rparr>]
      | Some s \<Rightarrow>
          if s = [] then
            if isInitializeRequest (body req)
            then [New_Transport fresh, Connect fresh, Handle_Request fresh (Some (body req))]
                   @ (case handshake of None \<Rightarrow> [] | Some sid \<Rightarrow> [Session_Initialized sid fresh])
            else [Reply \<lparr>status = 400, payload = Json_Body no_valid_session\<rparr>]
          else
            (case transports s of
               Some t \<Rightarrow> [Handle_Request t (Some (body req))]
             | None \<Rightarrow> [Reply \<lparr>status = 400, payload = Json_Body no_valid_session\<rparr>]))"
  using assms
  by (auto simp: post_mcp_def js_get_def split: option.splits)

text \<open>
  Claim C5. A session created by \<^verbatim>\<open>POST /mcp\<close> enters the Session Table only when
  the transport reports the completed initialization through
  \<^verbatim>\<open>onsessioninitialized\<close>, under the id it passes; until then the table is the one
  the handler found, in which no id leads to the new transport. When the
  callback never runs, the table stays unchanged.
\<close>

theorem new_session_registered_by_handshake_only:
  assumes "\<not> truthy (session_header req)" and "isInitializeRequest (body req)"
    and "fresh \<notin> ran transports"
  shows
    "(\<forall>pre. prefix pre (post_mcp isInitializeRequest transports req fresh handshake)
             \<and> (\<forall>sid. Session_Initialized sid fresh \<notin> set pre)
        \<longrightarrow> table_after transports pre = transports
            \<and> (\<forall>k. js_get (table_after transports pre) k \<noteq> Some (Own fresh)))
     \<and> (\<forall>sid. handshake = Some sid \<longrightarrow>
           post_mcp isInitializeRequest transports req fresh handshake =
             [New_Transport fresh, Connect fresh, Handle_Request fresh (Some (body req)),
              Session_Initialized sid fresh]
           \<and> table_after transports (post_mcp isInitializeRequest transports req fresh handshake)
               = transports(sid \<mapsto> fresh))
     \<and> (handshake = None \<longrightarrow>
           table_after transports (post_mcp isInitializeRequest transports req fresh handshake)
             = transports)"
proof -
  have acts: "post_mcp isInitializeRequest transports req fresh h =
                [New_Transport fresh, Connect fresh, Handle_Request fresh (Some (body req))]
                  @ (case h of None \<Rightarrow> [] | Some sid \<Rightarrow> [Session_Initialized sid fresh])" for h
    using assms(1,2) by (rule post_mcp_new)
  have unaddressable: "js_get transports k \<noteq> Some (Own fresh)" for k
    using assms(3) by (auto simp: js_get_def ran_def split: option.splits)
  have before: "table_after transports pre = transports"
    if "prefix pre (post_mcp isInitializeRequest transports req fresh handshake)"
      and "\<forall>sid. Session_Initialized sid fresh \<notin> set pre" for pre
    using that
    by (cases handshake) (auto simp: acts prefix_Cons table_after_def)
  have after: "table_after transports (post_mcp isInitializeRequest transports req fresh (Some sid))
                 = transports(sid \<mapsto> fresh)" for sid
    by (simp add: acts table_after_def onsessioninitialized_def js_set_def)
  have never: "table_after transports (post_mcp isInitializeRequest transports req fresh None)
                 = transports"
    by (simp add: acts table_after_def)
  show ?thesis
    using before unaddressable after never by (auto simp: acts)
qed

theorem new_session_registered_by_handshake_only_witness:
  "\<not> truthy (session_header \<lparr>session_header = None, body = initialize_body\<rparr>)
   \<and> is_initialize_method (body \<lparr>session_header = None, body = initialize_body\<rparr>)
   \<and> (0::nat) \<notin> ran (Map.empty :: string \<rightharpoonup> transport)
   \<and> table_after Map.empty
         (post_mcp is_initialize_method Map.empty \<lparr>session_header = None, body = initialize_body\<rparr>
            0 (Some sample_uuid))
       = [sample_uuid \<mapsto> 0]
   \<and> table_after Map.empty
         (post_mcp is_initialize_method Map.empty \<lparr>session_header = None, body = initialize_body\<rparr>
            0 None)
       = Map.empty"
proof -
  let ?req = "\<lparr>session_header = None, body = initialize_body\<rparr>"
  have h1: "\<not> truthy (session_header ?req)" by simp
  have h2: "is_initialize_method (body ?req)"
    by (simp add: is_initialize_method_def initialize_body_def)
  have h3: "(0::nat) \<notin> ran (Map.empty :: string \<rightharpoonup> transport)" by simp
  note registered =
    new_session_registered_by_handshake_only
      [where req = ?req and isInitializeRequest = is_initialize_method and fresh = 0
         and transports = Map.empty, OF h1 h2 h3]
  have a: "table_after Map.empty (post_mcp is_initialize_method Map.empty ?req 0 (Some sample_uuid))
             = [sample_uuid \<mapsto> 0]"
    using registered [where handshake = "Some sample_uuid"] by blast
  have b: "table_after Map.empty (post_mcp is_initialize_method Map.empty ?req 0 None) = Map.empty"
    using registered [where handshake = None] by blast
  from h1 h2 h3 a b show ?thesis by blast
qed

section \<open>Session resumption and termination\<close>

text \<open>
  Claim C7. A GET or DELETE to \<^verbatim>\<open>/mcp\<close> whose session id header is absent or not
  in the Session Table is answered with HTTP 400 and a plain-text body, and the
  table is left unchanged.

  \<^verbatim>\<open>handleSessionRequest\<close> tests \<^verbatim>\<open>!transports[sessionId]\<close>, which is false for a
  member of \<^verbatim>\<open>Object.prototype\<close>. With the header \<^verbatim>\<open>constructor\<close> and an empty table
  the guard at line 132 is passed and line 138 calls the missing method
  \<^verbatim>\<open>handleRequest\<close> of the function \<^verbatim>\<open>Object\<close>: no response with status 400 is sent.
\<close>

theorem handleSessionRequest_inherited_name:
  "handleSessionRequest Map.empty \<lparr>session_header = Some ''constructor'', body = b\<rparr>
     = [Throw TypeError]"
  by (simp add: handleSessionRequest_def js_get_def object_prototype_names_def)

text \<open>
  For every other header the handler answers as the claim says, and it never
  changes the table.
\<close>

lemma handleSessionRequest_classification:
  assumes "\<forall>s. session_header req = Some s \<longrightarrow> s \<notin> set object_prototype_names"
  shows "handleSessionRequest transports req =
     (case session_header req of
        None \<Rightarrow> [Reply \<lparr>status = 400, payload = Text_Body ''Invalid or missing session ID''\<rparr>]
      | Some s \<Rightarrow>
          (case (if s = [] then None else transports s) of
             None \<Rightarrow> [Reply \<lparr>status = 400, payload = Text_Body ''Invalid or missing session ID''\<rparr>]
           | Some t \<Rightarrow> [Handle_Request t None]))"
  using assms
  by (auto simp: handleSessionRequest_def js_get_def split: option.splits)

lemma handleSessionRequest_table:
  "table_after transports (handleSessionRequest transports req) = transports"
  by (auto simp: handleSessionRequest_def table_after_def split: option.splits property.splits)

section \<open>The message endpoints of the push-stream binding\<close>

text \<open>
  Claim C4. \<^verbatim>\<open>POST /sse\<close> and \<^verbatim>\<open>POST /messages\<close> implement the same function: a
  missing \<^verbatim>\<open>sessionId\<close>, or one that names no registered transport, is answered with
  HTTP 400 "Invalid or missing sessionId" and nothing more is done; one that names
  a registered transport has the body forwarded to that transport.

  Both handlers read \<^verbatim>\<open>transports[sessionId]\<close>. With \<^verbatim>\<open>sessionId=constructor\<close> and no
  registered transport, both find the function \<^verbatim>\<open>Object\<close>, pass the guard and call its
  missing method \<^verbatim>\<open>handlePostMessage\<close>: neither answers with status 400.
\<close>

theorem message_endpoints_inherited_name:
  "post_sse Map.empty \<lparr>sessionId_param = Some ''constructor'', message = b\<rparr> = [Throw TypeError]
   \<and> post_messages Map.empty \<lparr>sessionId_param = Some ''constructor'', message = b\<rparr>
       = [Throw TypeError]"
  by (simp add: post_sse_def post_messages_def js_get_def object_prototype_names_def)

text \<open>
  The two handlers do agree on every request, and for every other \<^verbatim>\<open>sessionId\<close>
  they answer as the claim says.
\<close>

lemma post_sse_eq_post_messages: "post_sse transports req = post_messages transports req"
  by (simp add: post_sse_def post_messages_def)

lemma message_endpoints_classification:
  assumes "\<forall>s. sessionId_param req = Some s \<longrightarrow> s \<notin> set object_prototype_names"
  shows "post_sse transports req =
     (case sessionId_param req of
        None \<Rightarrow> [Reply \<lparr>status = 400, payload = Text_Body ''Invalid or missing sessionId''\<rparr>]
      | Some s \<Rightarrow>
          (case (if s = [] then None else transports s) of
             None \<Rightarrow> [Reply \<lparr>status = 400, payload = Text_Body ''Invalid or missing sessionId''\<rparr>]
           | Some t \<Rightarrow> [Handle_Post_Message t (message req)]))"
  using assms
  by (auto simp: post_sse_def js_get_def split: option.splits)

section \<open>Destroyed sessions\<close>

text \<open>
  Claim C6. After a session is destroyed, by \<^verbatim>\<open>onclose\<close> of its transport in the
  request/response binding or by the \<^verbatim>\<open>close\<close> event of its connection in the
  push-stream binding, its id is absent from the tables: a read of the id
  returns \<^verbatim>\<open>undefined\<close>, and every later request that carries the id is answered
  as one for an unknown session, by each handler of each binding. Deleting an id
  that is already absent leaves the tables as they are. Session ids are the
  values of \<^verbatim>\<open>randomUUID()\<close>.
\<close>

theorem destroyed_session_is_unknown:
  assumes "is_uuid sid"
  shows
    "js_get (onclose transports (Some sid)) sid = None
     \<and> post_mcp isInitializeRequest (onclose transports (Some sid))
           \<lparr>session_header = Some sid, body = b\<rparr> fresh handshake
         = [Reply \<lparr>status = 400, payload = Json_Body no_valid_session\<rparr>]
     \<and> handleSessionRequest (onclose transports (Some sid)) \<lparr>session_header = Some sid, body = b\<rparr>
         = [Reply \<lparr>status = 400, payload = Text_Body ''Invalid or missing session ID''\<rparr>]
     \<and> fst (on_close st sid) = None
     \<and> js_get (sse_transports (snd (on_close st sid))) sid = None
     \<and> js_get (sse_servers (snd (on_close st sid))) sid = None
     \<and> post_sse (sse_transports (snd (on_close st sid))) \<lparr>sessionId_param = Some sid, message = m\<rparr>
         = [Reply \<lparr>status = 400, payload = Text_Body ''Invalid or missing sessionId''\<rparr>]
     \<and> post_messages (sse_transports (snd (on_close st sid)))
           \<lparr>sessionId_param = Some sid, message = m\<rparr>
         = [Reply \<lparr>status = 400, payload = Text_Body ''Invalid or missing sessionId''\<rparr>]
     \<and> (transports sid = None \<longrightarrow> onclose transports (Some sid) = transports)
     \<and> (sse_transports st sid = None \<and> sse_servers st sid = None \<longrightarrow> snd (on_close st sid) = st)"
proof -
  have ne: "sid \<noteq> []" and ni: "sid \<notin> set object_prototype_names"
    using assms by (simp_all add: is_uuid_nonempty is_uuid_not_inherited)
  have oc: "onclose transports (Some sid) = js_delete transports sid"
    using ne by (simp add: onclose_def)
  have gone: "js_get (js_delete obj sid) sid = None" for obj :: "string \<rightharpoonup> nat"
    using ni by (rule js_get_deleted)
  have look: "lookup_session (js_delete obj sid) (Some sid) = None" for obj :: "string \<rightharpoonup> nat"
    using assms by (rule lookup_session_deleted)
  have tr: "sse_transports (snd (on_close st sid)) = js_delete (sse_transports st) sid"
    by (simp add: on_close_def Let_def split: option.splits property.splits)
  have srv: "js_get (sse_servers (snd (on_close st sid))) sid = None"
    using ni by (auto simp: on_close_def Let_def js_get_def js_delete_def split: option.splits)
  have exc: "fst (on_close st sid) = None"
    using ni by (auto simp: on_close_def Let_def js_get_def split: option.splits)
  have noop: "snd (on_close st sid) = st" if "sse_transports st sid = None" "sse_servers st sid = None"
    using that ni by (simp add: on_close_def Let_def js_get_def js_delete_absent)
  show ?thesis
    using ne
    by (simp add: oc gone look tr srv exc noop js_delete_absent post_mcp_def handleSessionRequest_def
          post_sse_def post_messages_def)
qed

theorem destroyed_session_is_unknown_witness:
  "is_uuid sample_uuid
   \<and> js_get (onclose [sample_uuid \<mapsto> 7] (Some sample_uuid)) sample_uuid = None
   \<and> handleSessionRequest (onclose [sample_uuid \<mapsto> 7] (Some sample_uuid))
         \<lparr>session_header = Some sample_uuid, body = JNull\<rparr>
       = [Reply \<lparr>status = 400, payload = Text_Body ''Invalid or missing session ID''\<rparr>]
   \<and> post_messages
         (sse_transports (snd (on_close \<lparr>sse_transports = [sample_uuid \<mapsto> 7],
                                          sse_servers = [sample_uuid \<mapsto> 8]\<rparr> sample_uuid)))
         \<lparr>sessionId_param = Some sample_uuid, message = JNull\<rparr>
       = [Reply \<lparr>status = 400, payload = Text_Body ''Invalid or missing sessionId''\<rparr>]"
  using is_uuid_sample
        destroyed_session_is_unknown
          [OF is_uuid_sample,
           where transports = "[sample_uuid \<mapsto> 7]" and b = JNull and m = JNull
             and st = "\<lparr>sse_transports = [sample_uuid \<mapsto> 7], sse_servers = [sample_uuid \<mapsto> 8]\<rparr>"
             and isInitializeRequest = is_initialize_method and fresh = 0 and handshake = None]
  by blast

text \<open>
  Opening a session and destroying it gives back the tables as they were.
\<close>

lemma get_sse_on_close:
  assumes "sse_transports st sid = None" and "sse_servers st sid = None" and "is_uuid sid"
  shows "on_close (get_sse st t sid srv) sid = (None, st)"
  using assms
  by (simp add: on_close_def get_sse_def js_set_def js_delete_def js_get_def Let_def fun_upd_idem)

lemma onsessioninitialized_onclose:
  assumes "transports sid = None" and "is_uuid sid"
  shows "onclose (onsessioninitialized transports sid t) (Some sid) = transports"
  using assms is_uuid_nonempty [of sid]
  by (auto simp add: onclose_def onsessioninitialized_def js_set_def js_delete_def)

section \<open>get_secret_word\<close>

lemma round_half_even_2: "2 * round_half_even p 2 \<le> p + 1"
  unfolding round_half_even_def Let_def by presburger

lemma round_half_even_4: "4 * round_half_even p 4 \<le> p + 2"
  unfolding round_half_even_def Let_def by presburger

text \<open>The rounded product of a double below 1 with 3 stays below 3.\<close>

lemma times3_range:
  assumes "m < 2 ^ k"
  shows "0 \<le> times3 m k \<and> times3 m k < 3"
proof -
  have pos: "(0::real) < 2 ^ k" by simp
  have m: "3 * m + 3 \<le> 3 * 2 ^ k" using assms by simp
  have a: "3 * m < 3 * 2 ^ k" using m by simp
  have b: "2 * round_half_even (3 * m) 2 < 3 * 2 ^ k"
    using round_half_even_2 [of "3 * m"] m by linarith
  have c: "4 * round_half_even (3 * m) 4 < 3 * 2 ^ k"
    using round_half_even_4 [of "3 * m"] m by linarith
  have lt: "real n / 2 ^ k < 3" if "n < 3 * 2 ^ k" for n
  proof -
    have "real n < real (3 * 2 ^ k)" using that by (simp only: of_nat_less_iff)
    then show ?thesis using pos by (simp add: divide_less_eq)
  qed
  show ?thesis
    unfolding times3_def Let_def using lt [OF a] lt [OF b] lt [OF c] by simp
qed

text \<open>
  The largest double below 1 gives the largest double below 3. Rounding can
  change the word: the exact product of the double below lies under 2, the
  rounded one is 2.
\<close>

lemma times3_largest: "times3 (2 ^ 53 - 1) 53 = 3 - 1 / 2 ^ 51"
  by (simp add: times3_def round_half_even_def Let_def)

lemma times3_rounds_up:
  "3 * real 6004799503160661 / 2 ^ 53 < 2 \<and> times3 6004799503160661 53 = 2"
  by (simp add: times3_def round_half_even_def Let_def)

text \<open>
  Claim C8. For every value of \<^verbatim>\<open>Math.random()\<close>, a double from 0 (included) to 1
  (excluded), the index computed by \<^verbatim>\<open>getRandomWord\<close> from the rounded product is
  within the vocabulary, the word is defined and is one of "apple", "banana" and
  "cherry", and \<^verbatim>\<open>get_secret_word\<close> returns it as the text of its result.
\<close>

theorem getRandomWord_in_vocabulary:
  assumes "m < 2 ^ 53" and "m < 2 ^ k"
  shows "\<exists>word. getRandomWord m k = Some word
           \<and> (word = ''apple'' \<or> word = ''banana'' \<or> word = ''cherry'')
           \<and> get_secret_word m k =
               JObject [(''content'', JArray [JObject [(''type'', JString ''text''),
                                                       (''text'', JString word)]])]
           \<and> 0 \<le> \<lfloor>times3 m k\<rfloor> \<and> \<lfloor>times3 m k\<rfloor> < 3"
proof -
  from times3_range [OF assms(2)]
  have lo: "0 \<le> \<lfloor>times3 m k\<rfloor>" and hi: "\<lfloor>times3 m k\<rfloor> < 3"
    by (simp_all add: floor_less_iff)
  then have "\<lfloor>times3 m k\<rfloor> = 0 \<or> \<lfloor>times3 m k\<rfloor> = 1 \<or> \<lfloor>times3 m k\<rfloor> = 2"
    by arith
  then show ?thesis
    using times3_range [OF assms(2)]
    by (auto simp: getRandomWord_def get_secret_word_def word_at_def vocabulary_def
          tool_result_def text_item_def Let_def)
qed

theorem getRandomWord_in_vocabulary_witness:
  "(1::nat) < 2 ^ 53 \<and> (1::nat) < 2 ^ 1
   \<and> getRandomWord 1 1 = Some ''banana''
   \<and> get_secret_word 1 1 =
       JObject [(''content'', JArray [JObject [(''type'', JString ''text''),
                                               (''text'', JString ''banana'')]])]
   \<and> (6004799503160661::nat) < 2 ^ 53
   \<and> getRandomWord 6004799503160661 53 = Some ''cherry''
   \<and> getRandomWord (2 ^ 53 - 1) 53 = Some ''cherry''"
proof -
  have a: "(1::nat) < 2 ^ 53" and b: "(1::nat) < 2 ^ 1" by simp_all
  have c: "(6004799503160661::nat) < 2 ^ 53" by simp
  have banana: "getRandomWord 1 1 = Some ''banana''"
    by (simp add: getRandomWord_def word_at_def times3_def vocabulary_def Let_def)
  have cherry: "getRandomWord 6004799503160661 53 = Some ''cherry''"
    by (simp add: getRandomWord_def word_at_def times3_def round_half_even_def vocabulary_def Let_def)
  have largest: "getRandomWord (2 ^ 53 - 1) 53 = Some ''cherry''"
    by (simp add: getRandomWord_def word_at_def times3_def round_half_even_def vocabulary_def Let_def)
  from getRandomWord_in_vocabulary [OF a b] banana
  have "get_secret_word 1 1 =
          JObject [(''content'', JArray [JObject [(''type'', JString ''text''),
                                                  (''text'', JString ''banana'')]])]"
    by auto
  with a b c banana cherry largest show ?thesis by blast
qed

section \<open>stream_numbers\<close>

subsection \<open>The loops on a finite count\<close>

lemma decimal_nonempty: "decimal n \<noteq> []"
  by (subst decimal.simps) (simp del: decimal.simps)

lemma js_string_nonempty: "js_string i \<noteq> []"
  unfolding js_string_def using decimal_nonempty by (simp del: decimal.simps)

lemma token_length: "2 \<le> length (js_string i @ '' '')"
proof (cases "js_string i")
  case Nil
  then show ?thesis using js_string_nonempty [of i] by simp
next
  case (Cons a as)
  then show ?thesis by simp
qed

text \<open>
  On a finite \<^verbatim>\<open>count\<close> below \<open>2 ^ 53\<close> whose texts together fit in a string, the
  loop of the push-stream binding runs for the counters \<open>1, ..., \<lfloor>count\<rfloor>\<close>; so
  does the loop of the request/response binding when every notification is
  delivered.
\<close>

lemma sse_loop_Num:
  assumes "\<lfloor>x\<rfloor> < 2 ^ 53"
    and "length (acc @ concat (map (\<lambda>k. js_string (k * 2) @ '' '') [i..\<lfloor>x\<rfloor>])) \<le> max_length"
  shows "sse_loop max_length (Num x) delivered i sent errors acc =
     \<lparr>issued = sent @ map (\<lambda>k. sse_notification (js_string (k * 2) @ '' '')) [i..\<lfloor>x\<rfloor>],
      reported = errors @ filter (\<lambda>k. \<not> delivered k) [i..\<lfloor>x\<rfloor>],
      returned = Inr (tool_result (acc @ concat (map (\<lambda>k. js_string (k * 2) @ '' '') [i..\<lfloor>x\<rfloor>])))\<rparr>"
  using assms(2)
proof (induction i "\<lfloor>x\<rfloor>" arbitrary: sent errors acc rule: upto.induct)
  case (1 i)
  show ?case
  proof (cases "i \<le> \<lfloor>x\<rfloor>")
    case True
    then have le: "real_of_int i \<le> x" by (simp add: le_floor_iff)
    have up: "[i..\<lfloor>x\<rfloor>] = i # [i + 1..\<lfloor>x\<rfloor>]" using True by (simp add: upto_rec1)
    have "i < 2 ^ 53" using True assms(1) by linarith
    then have inc: "js_inc i = i + 1" by (simp add: js_inc_def)
    have fits: "\<not> max_length < length (acc @ (js_string (i * 2) @ '' ''))"
      using "1.prems" up by simp
    have rest: "length ((acc @ (js_string (i * 2) @ '' ''))
                  @ concat (map (\<lambda>k. js_string (k * 2) @ '' '') [i + 1..\<lfloor>x\<rfloor>])) \<le> max_length"
      using "1.prems" up by simp
    show ?thesis
      using fits
      by (subst sse_loop.simps) (simp add: le up inc "1.hyps" [OF True rest])
  next
    case False
    then have "\<not> js_le i (Num x)" by (simp add: le_floor_iff)
    moreover have "[i..\<lfloor>x\<rfloor>] = []" using False by simp
    ultimately show ?thesis by (subst sse_loop.simps) simp
  qed
qed

lemma mcp_loop_Num_delivered:
  assumes "\<lfloor>x\<rfloor> < 2 ^ 53" and "\<forall>k \<in> set [i..\<lfloor>x\<rfloor>]. delivered k"
  shows "mcp_loop (Num x) delivered i sent =
     Some \<lparr>issued = sent @ map (\<lambda>k. mcp_notification (js_string k @ [CHR 0x0A])) [i..\<lfloor>x\<rfloor>],
           reported = [], returned = Inr (tool_result ''Done!'')\<rparr>"
  using assms(2)
proof (induction i "\<lfloor>x\<rfloor>" arbitrary: sent rule: upto.induct)
  case (1 i)
  show ?case
  proof (cases "i \<le> \<lfloor>x\<rfloor>")
    case True
    then have le: "real_of_int i \<le> x" by (simp add: le_floor_iff)
    have up: "[i..\<lfloor>x\<rfloor>] = i # [i + 1..\<lfloor>x\<rfloor>]" using True by (simp add: upto_rec1)
    have "i < 2 ^ 53" using True assms(1) by linarith
    then have inc: "js_inc i = i + 1" by (simp add: js_inc_def)
    have d: "delivered i" and rest: "\<forall>k \<in> set [i + 1..\<lfloor>x\<rfloor>]. delivered k"
      using "1.prems" up by simp_all
    show ?thesis
      by (subst mcp_loop.simps) (simp add: le up inc d "1.hyps" [OF True rest])
  next
    case False
    then have "\<not> js_le i (Num x)" by (simp add: le_floor_iff)
    moreover have "[i..\<lfloor>x\<rfloor>] = []" using False by simp
    ultimately show ?thesis by (subst mcp_loop.simps) simp
  qed
qed

text \<open>
  When the texts of the counters up to \<^verbatim>\<open>count\<close> do not fit in a string, each
  being two characters or more, the loop of the push-stream binding ends with
  the \<^verbatim>\<open>RangeError\<close> of the concatenation, whatever is delivered.
\<close>

lemma sse_loop_too_long:
  assumes "int max_length < 2 * c" and "1 \<le> i" and "i \<le> c"
    and "2 * (i - 1) \<le> int (length acc)"
  shows "returned (sse_loop max_length (Num (of_int c)) delivered i sent errors acc) = Inl RangeError"
  using assms(2-4)
proof (induction "max_length - length acc" arbitrary: i sent errors acc rule: less_induct)
  case less
  let ?tok = "js_string (i * 2) @ '' ''"
  have le: "js_le i (Num (of_int c))" using less.prems(2) by simp
  show ?case
  proof (cases "max_length < length (acc @ ?tok)")
    case True
    then show ?thesis using le by (subst sse_loop.simps) simp
  next
    case False
    have tok: "2 \<le> length ?tok" by (rule token_length)
    have len: "2 * i \<le> int (length (acc @ ?tok))" using less.prems(3) tok by simp
    have "int (length (acc @ ?tok)) \<le> int max_length" using False by simp
    then have ic: "i < c" using len assms(1) by arith
    have up: "js_inc i \<le> i + 1" and lo: "i \<le> js_inc i" by (simp_all add: js_inc_def)
    have p1: "1 \<le> js_inc i" using less.prems(1) lo by arith
    have p2: "js_inc i \<le> c" using ic up by arith
    have "a \<le> i + 1 \<Longrightarrow> 2 * i \<le> L \<Longrightarrow> 2 * (a - 1) \<le> L" for a L :: int
      by simp
    from this [OF up len]
    have p3: "2 * (js_inc i - 1) \<le> int (length (acc @ ?tok))" .
    have dec: "max_length - length (acc @ ?tok) < max_length - length acc"
      using False tok by simp
    have "returned (sse_loop max_length (Num (of_int c)) delivered (js_inc i)
                     (sent @ [sse_notification ?tok])
                     (if delivered i then errors else errors @ [i]) (acc @ ?tok)) = Inl RangeError"
      by (rule less.hyps [OF dec p1 p2 p3])
    then show ?thesis using le False by (subst sse_loop.simps) simp
  qed
qed

text \<open>
  With the count \<^verbatim>\<open>Infinity\<close> the loop of the request/response binding returns
  only when a notification is rejected.
\<close>

lemma mcp_loop_returns:
  assumes "mcp_loop count delivered i sent = Some y"
  shows "count = Infinity \<longrightarrow> (\<exists>k. \<not> delivered k)"
  by (rule mcp_loop.raw_induct
        [where P = "\<lambda>count delivered i sent y. count = Infinity \<longrightarrow> (\<exists>k. \<not> delivered k)",
         OF _ assms])
     (auto split: if_splits)

lemma mcp_stream_numbers_Infinity: "mcp_stream_numbers Infinity (\<lambda>i. True) = None"
  using mcp_loop_returns [of Infinity "\<lambda>i. True" 1 "[]"]
  by (cases "mcp_stream_numbers Infinity (\<lambda>i. True)") (auto simp: mcp_stream_numbers_def)

subsection \<open>The final result of the push-stream binding\<close>

text \<open>
  Claim C9, as amended. In the push-stream binding, for every non-negative
  integer \<^verbatim>\<open>count\<close> below \<open>2 ^ 53\<close> for which the texts of the notifications
  together are no longer than a string may be, the invocation returns, and the
  text of its final result is the concatenation of the texts of the
  notifications it sent, in order; the \<open>i\<close>-th text is the decimal form of
  \<open>2 * i\<close> followed by a space. For the count 3 the texts are "2 ", "4 " and "6 "
  and the final result is "2 4 6 ".
\<close>

theorem sse_result_is_concatenation:
  assumes "int n < 2 ^ 53"
    and "length (concat (map (\<lambda>i. js_string (2 * i) @ '' '') [1..int n])) \<le> max_length"
  shows
    "sse_stream_numbers max_length (Num (real n)) delivered =
       \<lparr>issued =
          map (\<lambda>i. JObject [(''method'', JString ''notifications/message''),
                            (''params'',
                             JObject [(''level'', JString ''info''),
                                      (''data'', JObject [(''type'', JString ''text''),
                                                          (''text'', JString (js_string (2 * i) @ '' ''))])])])
            [1..int n],
        reported = filter (\<lambda>i. \<not> delivered i) [1..int n],
        returned =
          Inr (JObject [(''content'',
                         JArray [JObject [(''type'', JString ''text''),
                                          (''text'',
                                           JString (concat (map (\<lambda>i. js_string (2 * i) @ '' '')
                                                              [1..int n])))]])])\<rparr>
     \<and> (6 \<le> max_length \<longrightarrow>
          sse_stream_numbers max_length (Num 3) delivered =
            \<lparr>issued =
               map (\<lambda>s. JObject [(''method'', JString ''notifications/message''),
                                 (''params'',
                                  JObject [(''level'', JString ''info''),
                                           (''data'', JObject [(''type'', JString ''text''),
                                                               (''text'', JString s)])])])
                 [''2 '', ''4 '', ''6 ''],
             reported = filter (\<lambda>i. \<not> delivered i) [1, 2, 3],
             returned =
               Inr (JObject [(''content'',
                              JArray [JObject [(''type'', JString ''text''),
                                               (''text'', JString ''2 4 6 '')]])])\<rparr>)"
proof -
  have fl: "\<lfloor>real n\<rfloor> = int n" by simp
  have a: "\<lfloor>real n\<rfloor> < 2 ^ 53" using assms(1) by (simp only: fl)
  have b: "length ([] @ concat (map (\<lambda>k. js_string (k * 2) @ '' '') [1..\<lfloor>real n\<rfloor>])) \<le> max_length"
    using assms(2) by (simp only: fl mult.commute append_Nil)
  have first: "sse_stream_numbers max_length (Num (real n)) delivered =
     \<lparr>issued = map (\<lambda>k. sse_notification (js_string (k * 2) @ '' '')) [1..int n],
      reported = filter (\<lambda>k. \<not> delivered k) [1..int n],
      returned = Inr (tool_result (concat (map (\<lambda>k. js_string (k * 2) @ '' '') [1..int n])))\<rparr>"
    unfolding sse_stream_numbers_def using sse_loop_Num [OF a b, of delivered "[]" "[]"]
    by (simp only: fl append_Nil)
  have three: "sse_stream_numbers max_length (Num 3) delivered =
      \<lparr>issued = [sse_notification ''2 '', sse_notification ''4 '', sse_notification ''6 ''],
       reported = filter (\<lambda>i. \<not> delivered i) [1, 2, 3],
       returned = Inr (tool_result ''2 4 6 '')\<rparr>" if "6 \<le> max_length"
    using that
    by (simp add: sse_stream_numbers_def sse_loop.simps js_string_def js_inc_def)
  show ?thesis
    using three
    by (simp add: first sse_notification_def tool_result_def text_item_def mult.commute
          del: decimal.simps)
qed

theorem sse_result_is_concatenation_witness:
  "int 3 < 2 ^ 53
   \<and> length (concat (map (\<lambda>i. js_string (2 * i) @ '' '') [1..int 3])) \<le> 2 ^ 29 - 24
   \<and> sse_stream_numbers (2 ^ 29 - 24) (Num 3) (\<lambda>i. i \<noteq> 2) =
       \<lparr>issued =
          map (\<lambda>s. JObject [(''method'', JString ''notifications/message''),
                            (''params'',
                             JObject [(''level'', JString ''info''),
                                      (''data'', JObject [(''type'', JString ''text''),
                                                          (''text'', JString s)])])])
            [''2 '', ''4 '', ''6 ''],
        reported = [2],
        returned =
          Inr (JObject [(''content'',
                         JArray [JObject [(''type'', JString ''text''),
                                          (''text'', JString ''2 4 6 '')]])])\<rparr>"
proof -
  have up: "[1..(3::int)] = [1, 2, 3]" by (simp add: upto_rec1)
  have a: "int 3 < 2 ^ 53" by simp
  have b: "length (concat (map (\<lambda>i. js_string (2 * i) @ '' '') [1..int 3])) \<le> 2 ^ 29 - 24"
    by (simp add: up js_string_def)
  have six: "(6::nat) \<le> 2 ^ 29 - 24" by simp
  from sse_result_is_concatenation [OF a b, of "\<lambda>i. i \<noteq> 2"] six
  have "sse_stream_numbers (2 ^ 29 - 24) (Num 3) (\<lambda>i. i \<noteq> 2) =
       \<lparr>issued =
          map (\<lambda>s. JObject [(''method'', JString ''notifications/message''),
                            (''params'',
                             JObject [(''level'', JString ''info''),
                                      (''data'', JObject [(''type'', JString ''text''),
                                                          (''text'', JString s)])])])
            [''2 '', ''4 '', ''6 ''],
        reported = filter (\<lambda>i. \<not> i \<noteq> 2) [1, 2, 3],
        returned =
          Inr (JObject [(''content'',
                         JArray [JObject [(''type'', JString ''text''),
                                          (''text'', JString ''2 4 6 '')]])])\<rparr>"
    by blast
  then have "sse_stream_numbers (2 ^ 29 - 24) (Num 3) (\<lambda>i. i \<noteq> 2) =
       \<lparr>issued =
          map (\<lambda>s. JObject [(''method'', JString ''notifications/message''),
                            (''params'',
                             JObject [(''level'', JString ''info''),
                                      (''data'', JObject [(''type'', JString ''text''),
                                                          (''text'', JString s)])])])
            [''2 '', ''4 '', ''6 ''],
        reported = [2],
        returned =
          Inr (JObject [(''content'',
                         JArray [JObject [(''type'', JString ''text''),
                                          (''text'', JString ''2 4 6 '')]])])\<rparr>"
    by simp
  with a b show ?thesis by blast
qed

text \<open>
  The claim as stated, for every non-negative integer count, fails where the
  texts no longer fit in a string: with the largest string of Node.js and the
  count \<open>2 ^ 29\<close>, and with the largest string the language allows and the count
  \<open>2 ^ 53 + 2\<close>, the invocation ends with a \<^verbatim>\<open>RangeError\<close> and returns no result.
\<close>

theorem sse_result_count_too_large:
  "returned (sse_stream_numbers (2 ^ 29 - 24) (Num (2 ^ 29)) (\<lambda>i. True)) = Inl RangeError
   \<and> returned (sse_stream_numbers (2 ^ 53 - 1) (Num (2 ^ 53 + 2)) (\<lambda>i. True)) = Inl RangeError"
proof -
  have a: "returned (sse_loop (2 ^ 29 - 24) (Num (of_int (2 ^ 29))) (\<lambda>i. True) 1 [] [] [])
             = Inl RangeError"
    by (rule sse_loop_too_long) simp_all
  have b: "returned (sse_loop (2 ^ 53 - 1) (Num (of_int (2 ^ 53 + 2))) (\<lambda>i. True) 1 [] [] [])
             = Inl RangeError"
    by (rule sse_loop_too_long) simp_all
  from a b show ?thesis by (simp add: sse_stream_numbers_def)
qed

subsection \<open>Counts below one\<close>

text \<open>
  Claim C10. For every \<^verbatim>\<open>count\<close> below 1 (zero, a negative number, or \<^verbatim>\<open>NaN\<close>)
  \<^verbatim>\<open>stream_numbers\<close> sends no notification and returns one result: the text
  "Done!" in the request/response binding, the empty text in the push-stream
  binding.
\<close>

theorem stream_numbers_below_one:
  assumes "count = NaN \<or> count = Neg_Infinity \<or> (\<exists>x. x < 1 \<and> count = Num x)"
  shows "mcp_stream_numbers count delivered =
           Some \<lparr>issued = [], reported = [],
                 returned = Inr (JObject [(''content'',
                                           JArray [JObject [(''type'', JString ''text''),
                                                            (''text'', JString ''Done!'')]])])\<rparr>
         \<and> sse_stream_numbers max_length count delivered =
           \<lparr>issued = [], reported = [],
            returned = Inr (JObject [(''content'',
                                      JArray [JObject [(''type'', JString ''text''),
                                                       (''text'', JString [])]])])\<rparr>"
proof -
  have "\<not> js_le 1 count" using assms by auto
  then show ?thesis
    by (simp add: mcp_stream_numbers_def sse_stream_numbers_def mcp_loop.simps sse_loop.simps
          tool_result_def text_item_def)
qed

theorem stream_numbers_below_one_witness:
  "(Num 0 = NaN \<or> Num 0 = Neg_Infinity \<or> (\<exists>x. x < 1 \<and> Num 0 = Num x))
   \<and> mcp_stream_numbers (Num 0) (\<lambda>i. True) =
       Some \<lparr>issued = [], reported = [],
             returned = Inr (JObject [(''content'',
                                       JArray [JObject [(''type'', JString ''text''),
                                                        (''text'', JString ''Done!'')]])])\<rparr>
   \<and> sse_stream_numbers (2 ^ 29 - 24) (Num (1 / 2)) (\<lambda>i. True) =
       \<lparr>issued = [], reported = [],
        returned = Inr (JObject [(''content'',
                                  JArray [JObject [(''type'', JString ''text''),
                                                   (''text'', JString [])]])])\<rparr>
   \<and> sse_stream_numbers (2 ^ 29 - 24) NaN (\<lambda>i. True) =
       \<lparr>issued = [], reported = [],
        returned = Inr (JObject [(''content'',
                                  JArray [JObject [(''type'', JString ''text''),
                                                   (''text'', JString [])]])])\<rparr>"
proof -
  have zero: "Num 0 = NaN \<or> Num 0 = Neg_Infinity \<or> (\<exists>x. x < 1 \<and> Num 0 = Num x)"
    by simp
  have "(1::real) / 2 < 1 \<and> Num (1 / 2) = Num (1 / 2)" by simp
  then have half: "Num (1 / 2) = NaN \<or> Num (1 / 2) = Neg_Infinity \<or> (\<exists>x. x < 1 \<and> Num (1 / 2) = Num x)"
    by blast
  have nan: "NaN = NaN \<or> NaN = Neg_Infinity \<or> (\<exists>x. x < 1 \<and> NaN = Num x)"
    by simp
  show ?thesis
    using zero stream_numbers_below_one [OF zero, of "\<lambda>i. True" "2 ^ 29 - 24"]
      stream_numbers_below_one [OF half, of "\<lambda>i. True" "2 ^ 29 - 24"]
      stream_numbers_below_one [OF nan, of "\<lambda>i. True" "2 ^ 29 - 24"]
    by blast
qed

subsection \<open>A notification that is not delivered\<close>

text \<open>
  Claim C2. \<^verbatim>\<open>stream_numbers\<close> with the count 3 sends exactly three notifications
  with increasing values and then returns exactly one final result, also when
  the delivery of one notification fails: that failure neither ends the
  invocation nor becomes its own failure.

  In mcpServer.ts the handler awaits each \<^verbatim>\<open>sendNotification\<close> (line 42) and has no
  handler for its rejection. When the second notification is rejected, the
  invocation ends with that rejection: two notifications were passed on, the
  third is never sent, and the result "Done!" (line 53, "MUST be returned") is
  not returned.
\<close>

theorem mcp_stream_numbers_rejected_send:
  "mcp_stream_numbers (Num 3) (\<lambda>i. i \<noteq> 2) =
     Some \<lparr>issued = [mcp_notification [CHR ''1'', CHR 0x0A], mcp_notification [CHR ''2'', CHR 0x0A]],
           reported = [], returned = Inl (Send_Rejected 2)\<rparr>"
  by (simp add: mcp_stream_numbers_def mcp_loop.simps js_string_def js_inc_def)

text \<open>
  The push-stream binding catches the rejection (sseServer.ts, line 71), and does
  what the claim says whichever notifications are rejected. The request/response
  binding does so when all three are delivered.
\<close>

lemma sse_stream_numbers_three:
  assumes "6 \<le> max_length"
  shows "sse_stream_numbers max_length (Num 3) delivered =
     \<lparr>issued = [sse_notification ''2 '', sse_notification ''4 '', sse_notification ''6 ''],
      reported = filter (\<lambda>i. \<not> delivered i) [1, 2, 3],
      returned = Inr (tool_result ''2 4 6 '')\<rparr>"
  using assms by (simp add: sse_stream_numbers_def sse_loop.simps js_string_def js_inc_def)

lemma mcp_stream_numbers_three_delivered:
  "mcp_stream_numbers (Num 3) (\<lambda>i. True) =
     Some \<lparr>issued = [mcp_notification [CHR ''1'', CHR 0x0A], mcp_notification [CHR ''2'', CHR 0x0A],
                     mcp_notification [CHR ''3'', CHR 0x0A]],
           reported = [], returned = Inr (tool_result ''Done!'')\<rparr>"
  by (simp add: mcp_stream_numbers_def mcp_loop.simps js_string_def js_inc_def)

end
